theory Spec2Isabelle
  imports Main
begin

section \<open>JavaScript values and \<open>JSON.stringify\<close>\<close>

text \<open>
  The handlers exchange plain data with the table store and with their caller: the rows of
  a table, the detail of a store error, the invocation event. These are the values that
  \<open>JSON.stringify\<close> renders: \<open>undefined\<close>, \<open>null\<close>, booleans, finite numbers, strings,
  arrays and objects. A number is carried by the text that \<open>Number::toString\<close> gives it;
  an object is the list of its own enumerable properties in enumeration order; a string
  is a list of code units below 256. On these values \<open>JSON.stringify\<close> does not throw;
  the values on which it throws are added by the type \<open>anyval\<close> below.
\<close>

datatype jsval =
    JUndefined
  | JNull
  | JBool bool
  | JNumber string
  | JString string
  | JArray "jsval list"
  | JObject "(string \<times> jsval) list"

definition hex_digit :: "nat \<Rightarrow> char" where
  "hex_digit n = ''0123456789abcdef'' ! (n mod 16)"

definition UnicodeEscape :: "char \<Rightarrow> string" where
  "UnicodeEscape c = [CHR 0x5C, CHR ''u'', CHR ''0'', CHR ''0'',
     hex_digit (of_char c div 16), hex_digit (of_char c mod 16)]"

text \<open>
  One code unit inside a quoted string: the short escapes of ECMAScript's table, the
  \<open>\u00XX\<close> form for the other control characters, the code unit itself otherwise.
\<close>

definition quote_code_unit :: "char \<Rightarrow> string" where
  "quote_code_unit c =
    (if c = CHR 0x08 then [CHR 0x5C, CHR ''b'']
     else if c = CHR 0x09 then [CHR 0x5C, CHR ''t'']
     else if c = CHR 0x0A then [CHR 0x5C, CHR ''n'']
     else if c = CHR 0x0C then [CHR 0x5C, CHR ''f'']
     else if c = CHR 0x0D then [CHR 0x5C, CHR ''r'']
     else if c = CHR 0x22 then [CHR 0x5C, CHR 0x22]
     else if c = CHR 0x5C then [CHR 0x5C, CHR 0x5C]
     else if (of_char c :: nat) < 0x20 then UnicodeEscape c
     else [c])"

definition QuoteJSONString :: "string \<Rightarrow> string" where
  "QuoteJSONString s = [CHR 0x22] @ concat (map quote_code_unit s) @ [CHR 0x22]"

fun join_comma :: "string list \<Rightarrow> string" where
  "join_comma [] = []"
| "join_comma [x] = x"
| "join_comma (x # y # ys) = x @ '','' @ join_comma (y # ys)"

text \<open>
  \<open>JSON.stringify\<close> without replacer and indentation. The result is \<open>None\<close> where
  JavaScript returns \<open>undefined\<close>. An array element without a rendering is written
  \<open>null\<close>; an object property without a rendering is left out.
\<close>

fun JSON_stringify :: "jsval \<Rightarrow> string option" where
  "JSON_stringify JUndefined = None"
| "JSON_stringify JNull = Some ''null''"
| "JSON_stringify (JBool b) = Some (if b then ''true'' else ''false'')"
| "JSON_stringify (JNumber n) = Some n"
| "JSON_stringify (JString s) = Some (QuoteJSONString s)"
| "JSON_stringify (JArray vs) =
     Some (''['' @ join_comma (map (\<lambda>v. case JSON_stringify v of
                                         None \<Rightarrow> ''null''
                                       | Some s \<Rightarrow> s) vs) @ '']'')"
| "JSON_stringify (JObject ps) =
     Some (''{'' @ join_comma (concat (map (\<lambda>p. case JSON_stringify (snd p) of
                                         None \<Rightarrow> []
                                       | Some s \<Rightarrow> [QuoteJSONString (fst p) @ '':'' @ s]) ps))
               @ ''}'')"

text \<open>The text of one array element, as the array case above writes it.\<close>

definition element_text :: "jsval \<Rightarrow> string" where
  "element_text v = (case JSON_stringify v of None \<Rightarrow> ''null'' | Some s \<Rightarrow> s)"

subsection \<open>Values that \<open>JSON.stringify\<close> cannot render\<close>

text \<open>
  What the document client returns and what a \<open>catch\<close> clause receives has the TypeScript
  type \<open>any\<close>. Such a value is plain data, or a BigInt, or an object that reaches itself
  through its properties, or the \<open>TypeError\<close> that \<open>JSON.stringify\<close> throws, or an array or
  object built from such values. The client of this handler is created with
  \<open>wrapNumbers: false\<close>, and then it returns a stored number beyond the safe integers as a
  BigInt.
\<close>

datatype anyval =
    Data jsval
  | BigInt int
  | Circular
  | TypeError
  | AnyArray "anyval list"
  | AnyObject "(string \<times> anyval) list"

text \<open>
  The plain data that \<open>JSON.stringify\<close> sees in a value, \<open>None\<close> when the value holds a
  BigInt or a circular object anywhere. An error instance has no enumerable property of
  its own, so it is seen as the empty object.
\<close>

fun plain :: "anyval \<Rightarrow> jsval option" where
  "plain (Data v) = Some v"
| "plain (BigInt n) = None"
| "plain Circular = None"
| "plain TypeError = Some (JObject [])"
| "plain (AnyArray vs) = map_option JArray (those (map plain vs))"
| "plain (AnyObject ps) =
     map_option JObject (those (map (\<lambda>p. map_option (Pair (fst p)) (plain (snd p))) ps))"

text \<open>
  \<open>JSON.stringify\<close> on any value: \<open>Inl TypeError\<close> when it throws, which it does on a BigInt
  and on a circular structure, \<open>Inr\<close> with the text otherwise.
\<close>

definition any_stringify :: "anyval \<Rightarrow> anyval + string option" where
  "any_stringify v = (case plain v of None \<Rightarrow> Inl TypeError | Some d \<Rightarrow> Inr (JSON_stringify d))"


section \<open>The Movie Lookup handler (\<open>lambdas/getMovieById.ts\<close>)\<close>

subsection \<open>The document client\<close>

record marshallOptions =
  convertEmptyValues :: bool
  removeUndefinedValues :: bool
  convertClassInstanceToMap :: bool

record unmarshallOptions =
  wrapNumbers :: bool

record translateConfig =
  marshallOptions :: marshallOptions
  unmarshallOptions :: unmarshallOptions

text \<open>
  The configuration of the underlying client. The source sets the region alone: the number
  of attempts that the client makes within one \<open>send\<close> is left to the client's default.
\<close>

record DynamoDBClientConfig =
  region :: string
  maxAttempts :: "nat option"

record DynamoDBDocumentClient =
  ddbClient :: DynamoDBClientConfig
  translateConfig :: translateConfig

definition createDDbDocClient :: DynamoDBDocumentClient where
  "createDDbDocClient =
     \<lparr>ddbClient = \<lparr>region = ''eu-west-1'', maxAttempts = None\<rparr>,
      translateConfig =
        \<lparr>marshallOptions =
           \<lparr>convertEmptyValues = True,
            removeUndefinedValues = True,
            convertClassInstanceToMap = True\<rparr>,
         unmarshallOptions = \<lparr>wrapNumbers = False\<rparr>\<rparr>\<rparr>"

definition ddbDocClient :: DynamoDBDocumentClient where
  "ddbDocClient = createDDbDocClient"

subsection \<open>Commands, outputs and the runtime\<close>

text \<open>
  The input of a scan command. The handler's object literal sets \<open>TableName\<close> alone, so
  every other field of the input is absent.
\<close>

record ScanCommandInput =
  TableName :: string
  IndexName :: "string option"
  FilterExpression :: "string option"
  Limit :: "nat option"
  ExclusiveStartKey :: "jsval option"

definition ScanCommand :: "string \<Rightarrow> ScanCommandInput" where
  "ScanCommand table =
     \<lparr>TableName = table, IndexName = None, FilterExpression = None,
      Limit = None, ExclusiveStartKey = None\<rparr>"

record ScanCommandOutput =
  Items :: "anyval list option"

text \<open>
  What the handler runs in: the environment variables of the process and the store behind
  the client. \<open>dynamodb client input\<close> is the outcome of \<open>client.send(new ScanCommand(input))\<close>:
  \<open>Inl error\<close> when the promise rejects with \<open>error\<close>, \<open>Inr output\<close> when it resolves.
\<close>

record runtime =
  process_env :: "string \<rightharpoonup> string"
  dynamodb :: "DynamoDBDocumentClient \<Rightarrow> ScanCommandInput \<Rightarrow> anyval + ScanCommandOutput"

datatype console_arg = Text "string option" | Output ScanCommandOutput

datatype console_entry = ConsoleLog string console_arg | ConsoleError "string option"

text \<open>
  What one invocation did besides returning: the calls of \<open>send\<close>, by their commands, and
  the console lines, both in order.
\<close>

record effects =
  sent :: "ScanCommandInput list"
  console :: "console_entry list"

record response =
  statusCode :: nat
  headers :: "(string \<times> string) list"
  body :: "string option"

definition console_log :: "string \<Rightarrow> console_arg \<Rightarrow> effects \<Rightarrow> effects" where
  "console_log label arg fx = fx\<lparr>console := console fx @ [ConsoleLog label arg]\<rparr>"

definition console_error :: "string option \<Rightarrow> effects \<Rightarrow> effects" where
  "console_error text fx = fx\<lparr>console := console fx @ [ConsoleError text]\<rparr>"

text \<open>One call \<open>await client.send(new ScanCommand(input))\<close>: it is recorded, and it has the
  outcome that the store gives.\<close>

definition send ::
  "runtime \<Rightarrow> DynamoDBDocumentClient \<Rightarrow> ScanCommandInput \<Rightarrow> effects
     \<Rightarrow> (anyval + ScanCommandOutput) \<times> effects" where
  "send rt client input fx = (dynamodb rt client input, fx\<lparr>sent := sent fx @ [input]\<rparr>)"

text \<open>The value of \<open>commandOutput.Items\<close>: \<open>undefined\<close> when the output has no such field.\<close>

definition Items_value :: "ScanCommandOutput \<Rightarrow> anyval" where
  "Items_value commandOutput =
     (case Items commandOutput of None \<Rightarrow> Data JUndefined | Some rows \<Rightarrow> AnyArray rows)"

subsection \<open>The handler\<close>

text \<open>
  The \<open>try\<close> block (lines 11 to 28): it logs the event, sends one scan of the table
  \<open>Movies\<close>, logs the output and returns status 200. \<open>Inl\<close> is a value thrown inside the
  block: by \<open>JSON.stringify\<close> on the event, by the awaited \<open>send\<close>, or by \<open>JSON.stringify\<close>
  on the data. A throw ends the block at once.
\<close>

definition try_block :: "runtime \<Rightarrow> anyval \<Rightarrow> effects \<Rightarrow> (anyval + response) \<times> effects" where
  "try_block rt event fx =
     (case any_stringify event of
        Inl thrown \<Rightarrow> (Inl thrown, fx)
      | Inr event_text \<Rightarrow>
          (let fx1 = console_log ''Event: '' (Text event_text) fx;
               (outcome, fx2) = send rt ddbDocClient (ScanCommand ''Movies'') fx1
           in case outcome of
                Inl thrown \<Rightarrow> (Inl thrown, fx2)
              | Inr commandOutput \<Rightarrow>
                  (let fx3 = console_log ''ScanCommand response: '' (Output commandOutput) fx2
                   in case any_stringify (AnyObject [(''data'', Items_value commandOutput)]) of
                        Inl thrown \<Rightarrow> (Inl thrown, fx3)
                      | Inr text \<Rightarrow>
                          (Inr \<lparr>statusCode = 200,
                                headers = [(''content-type'', ''application/json'')],
                                body = text\<rparr>,
                           fx3))))"

text \<open>
  The \<open>catch\<close> block (lines 29 to 38): it logs the text of the error and returns status
  500. Nothing encloses this block, so a throw of its \<open>JSON.stringify\<close> leaves the handler.
\<close>

definition catch_block :: "anyval \<Rightarrow> effects \<Rightarrow> (anyval + response) \<times> effects" where
  "catch_block error fx =
     (case any_stringify error of
        Inl thrown \<Rightarrow> (Inl thrown, fx)
      | Inr error_text \<Rightarrow>
          (let fx1 = console_error error_text fx
           in case any_stringify (AnyObject [(''error'', error)]) of
                Inl thrown \<Rightarrow> (Inl thrown, fx1)
              | Inr text \<Rightarrow>
                  (Inr \<lparr>statusCode = 500,
                        headers = [(''content-type'', ''application/json'')],
                        body = text\<rparr>,
                   fx1)))"

text \<open>
  One invocation. The result is \<open>Inr\<close> with the response that the handler returns, or
  \<open>Inl\<close> with the value that its promise rejects with, and what the invocation did.
\<close>

definition handler :: "runtime \<Rightarrow> anyval \<Rightarrow> anyval \<Rightarrow> (anyval + response) \<times> effects" where
  "handler rt event context =
     (case try_block rt event \<lparr>sent = [], console = []\<rparr> of
        (Inl error, fx) \<Rightarrow> catch_block error fx
      | (Inr returned, fx) \<Rightarrow> (Inr returned, fx))"

subsection \<open>The stack's settings for the handler\<close>

definition moviesTable_tableName :: string where
  "moviesTable_tableName = ''Movies''"

definition getMovieByIdFn_environment :: "(string \<times> string) list" where
  "getMovieByIdFn_environment =
     [(''TABLE_NAME'', moviesTable_tableName), (''REGION'', ''eu-west-1'')]"


section \<open>The Cast Lookup handler (\<open>lambdas/getMovieCastMembers.ts\<close>)\<close>

text \<open>
  The stack deploys this handler from \<open>lambdas/getMovieCastMembers.ts\<close>. That file is not
  among the sources, so every definition of this section follows section 4.2 of the
  specification, and says so.
\<close>

text \<open>
  Modelled from the spec: the parameters of a Cast Lookup invocation, taken from the path
  and query parameters; the extraction code of \<open>getMovieCastMembers.ts\<close> is missing.
  \<open>movieId\<close> is the raw text of the parameter, \<open>None\<close> when it is missing.
\<close>

record CastLookupParams =
  movieId :: "string option"
  actorName :: "string option"
  roleName :: "string option"
  includeMovieMetadata :: bool

text \<open>
  Modelled from the spec: the sort-key condition of
  \<open>query(collection, partitionKey, [sortKeyCondition]) -> rows\<close>, which the missing handler
  builds: none, an exact actor name, or a role name on the secondary ordering.
\<close>

datatype sortKeyCondition = AllRows | ActorNameIs string | RoleNameIs string

text \<open>
  Modelled from the spec: one call of the missing handler to the store, a \<open>query\<close> with
  collection, partition key and sort-key condition, or a \<open>getItem\<close> with collection and key.
\<close>

datatype storeCall = Query string int sortKeyCondition | GetItem string int

text \<open>
  Modelled from the spec: the store behind the missing handler, by its answers to \<open>query\<close>
  and \<open>getItem\<close>; \<open>Inl\<close> carries the detail of a store error, \<open>Inr None\<close> is an absent row.
\<close>

record store =
  query :: "string \<Rightarrow> int \<Rightarrow> sortKeyCondition \<Rightarrow> jsval + jsval list"
  getItem :: "string \<Rightarrow> int \<Rightarrow> jsval + jsval option"

text \<open>
  Modelled from the spec: what the specification leaves to the implementer of the missing
  handler, the merge of a movie into a cast row (nested or flattened) and the body that
  describes an invalid parameter.
\<close>

record policy =
  mergeMovie :: "jsval \<Rightarrow> jsval \<Rightarrow> jsval"
  invalidParameterBody :: string

text \<open>
  Modelled from the spec: the response of the missing handler, a status and a body.
\<close>

record lookupResponse =
  status :: nat
  responseBody :: "string option"

text \<open>
  Modelled from the spec: "\<open>movieId\<close> (required, must parse as an integer)"; the parsing
  code of \<open>getMovieCastMembers.ts\<close> is missing. An integer is read as an optional minus
  sign followed by one or more decimal digits.
\<close>

definition is_digit :: "char \<Rightarrow> bool" where
  "is_digit c = (c \<in> set ''0123456789'')"

text \<open>Modelled from the spec: the value of a decimal numeral, for the missing parser.\<close>

definition digits_value :: "string \<Rightarrow> nat" where
  "digits_value ds = foldl (\<lambda>n c. 10 * n + (of_char c - 48)) 0 ds"

text \<open>
  Modelled from the spec: an unsigned integer of the missing parser, one or more digits.
\<close>

definition parse_digits :: "string \<Rightarrow> int option" where
  "parse_digits ds =
     (if ds \<noteq> [] \<and> list_all is_digit ds then Some (int (digits_value ds)) else None)"

text \<open>
  Modelled from the spec: "must parse as an integer", for the missing parser; \<open>None\<close> when
  the text is not an integer.
\<close>

fun parse_integer :: "string \<Rightarrow> int option" where
  "parse_integer [] = None"
| "parse_integer (c # cs) =
     (if c = CHR ''-'' then map_option uminus (parse_digits cs) else parse_digits (c # cs))"

text \<open>
  Modelled from the spec: the validation of the missing handler. The movie identifier of
  an invocation is \<open>None\<close> when the parameter is missing or does not parse.
\<close>

definition requestedMovieId :: "CastLookupParams \<Rightarrow> int option" where
  "requestedMovieId params =
     (case movieId params of None \<Rightarrow> None | Some raw \<Rightarrow> parse_integer raw)"

text \<open>
  Modelled from the spec: step 1 of the retrieval algorithm of the missing handler. An
  actor name gives the exact sort-key match, a role name instead gives the query on the
  secondary ordering, neither gives every cast row of the movie.
\<close>

definition castCondition :: "CastLookupParams \<Rightarrow> sortKeyCondition" where
  "castCondition params =
     (case actorName params of
        Some actor \<Rightarrow> ActorNameIs actor
      | None \<Rightarrow> (case roleName params of
                   Some role \<Rightarrow> RoleNameIs role
                 | None \<Rightarrow> AllRows))"

text \<open>
  Modelled from the spec: step 4 of the missing handler, "return status 200, body
  \<open>{ "data": [...] }\<close>".
\<close>

definition okResponse :: "jsval list \<Rightarrow> lookupResponse" where
  "okResponse rows =
     \<lparr>status = 200, responseBody = JSON_stringify (JObject [(''data'', JArray rows)])\<rparr>"

text \<open>
  Modelled from the spec: the failure mode of the missing handler, "status 500, body
  \<open>{ "error": <details> }\<close>".
\<close>

definition errorResponse :: "jsval \<Rightarrow> lookupResponse" where
  "errorResponse details =
     \<lparr>status = 500, responseBody = JSON_stringify (JObject [(''error'', details)])\<rparr>"

text \<open>
  Modelled from the spec: the Cast Lookup handler of the missing file
  \<open>getMovieCastMembers.ts\<close>, after "Validation", "Retrieval algorithm" (steps 1 to 4) and
  "Failure modes" of section 4.2. The result is the response and the store calls made, in
  order.
\<close>

definition castLookup :: "policy \<Rightarrow> store \<Rightarrow> CastLookupParams \<Rightarrow> lookupResponse \<times> storeCall list" where
  "castLookup pol st params =
     (case requestedMovieId params of
        None \<Rightarrow> (\<lparr>status = 400, responseBody = Some (invalidParameterBody pol)\<rparr>, [])
      | Some mid \<Rightarrow>
          (let cond = castCondition params;
               castQuery = Query ''MovieCast'' mid cond
           in case query st ''MovieCast'' mid cond of
                Inl details \<Rightarrow> (errorResponse details, [castQuery])
              | Inr rows \<Rightarrow>
                  if rows = [] then (okResponse [], [castQuery])
                  else if includeMovieMetadata params then
                    (case getItem st ''Movies'' mid of
                       Inl details \<Rightarrow> (errorResponse details, [castQuery, GetItem ''Movies'' mid])
                     | Inr None \<Rightarrow> (okResponse rows, [castQuery, GetItem ''Movies'' mid])
                     | Inr (Some movie) \<Rightarrow>
                         (okResponse (map (mergeMovie pol movie) rows),
                          [castQuery, GetItem ''Movies'' mid]))
                  else (okResponse rows, [castQuery])))"


section \<open>Sample stores and invocations\<close>

definition sample_movie :: jsval where
  "sample_movie = JObject [(''id'', JNumber ''1''), (''title'', JString ''A'')]"

definition sample_error :: jsval where
  "sample_error =
     JObject [(''name'', JString ''ResourceNotFoundException''), (''$fault'', JString ''client'')]"

text \<open>A store whose table \<open>Movies\<close> holds one movie; it knows no other table.\<close>

definition sample_runtime :: runtime where
  "sample_runtime =
     \<lparr>process_env = map_of getMovieByIdFn_environment,
      dynamodb = (\<lambda>client input.
         if TableName input = ''Movies'' then Inr \<lparr>Items = Some [Data sample_movie]\<rparr>
         else Inl (Data sample_error))\<rparr>"

text \<open>A store whose tables are all empty.\<close>

definition empty_runtime :: runtime where
  "empty_runtime =
     \<lparr>process_env = map_of getMovieByIdFn_environment,
      dynamodb = (\<lambda>client input. Inr \<lparr>Items = Some []\<rparr>)\<rparr>"


text \<open>
  A store whose table \<open>Movies\<close> holds one movie with the budget 9007199254740993, a number
  beyond the safe integers. A client that does not wrap numbers returns it as a BigInt.
\<close>

definition bigint_movie :: anyval where
  "bigint_movie =
     AnyObject [(''id'', Data (JNumber ''2'')), (''budget'', BigInt 9007199254740993)]"

definition wrapped_movie :: anyval where
  "wrapped_movie =
     Data (JObject [(''id'', JNumber ''2''),
                    (''budget'', JObject [(''value'', JString ''9007199254740993'')])])"

definition bigint_runtime :: runtime where
  "bigint_runtime =
     \<lparr>process_env = map_of getMovieByIdFn_environment,
      dynamodb = (\<lambda>client input.
         if wrapNumbers (unmarshallOptions (translateConfig client))
         then Inr \<lparr>Items = Some [wrapped_movie]\<rparr>
         else Inr \<lparr>Items = Some [bigint_movie]\<rparr>)\<rparr>"

text \<open>
  A store that rejects every command with an error object one of whose properties leads
  back to the object.
\<close>

definition circular_error :: anyval where
  "circular_error =
     AnyObject [(''name'', Data (JString ''TimeoutError'')), (''request'', Circular)]"

definition circular_runtime :: runtime where
  "circular_runtime =
     \<lparr>process_env = map_of getMovieByIdFn_environment,
      dynamodb = (\<lambda>client input. Inl circular_error)\<rparr>"

definition sample_event :: jsval where
  "sample_event = JObject [(''rawPath'', JString ''/''), (''body'', JString ''x'')]"

definition sample_cast_row :: jsval where
  "sample_cast_row =
     JObject [(''movieId'', JNumber ''1''), (''actorName'', JString ''X''),
              (''roleName'', JString ''Hero'')]"

definition other_cast_row :: jsval where
  "other_cast_row =
     JObject [(''movieId'', JNumber ''1''), (''actorName'', JString ''Y''),
              (''roleName'', JString ''Friend'')]"

text \<open>One merge policy: the movie is nested in the row under the key \<open>movie\<close>.\<close>

definition nest_movie :: "jsval \<Rightarrow> jsval \<Rightarrow> jsval" where
  "nest_movie movie row =
     (case row of JObject ps \<Rightarrow> JObject (ps @ [(''movie'', movie)]) | _ \<Rightarrow> row)"

definition sample_policy :: policy where
  "sample_policy =
     \<lparr>mergeMovie = nest_movie,
      invalidParameterBody = ''{'' @ QuoteJSONString ''error'' @ '':''
                              @ QuoteJSONString ''invalid movieId'' @ ''}''\<rparr>"

text \<open>
  A store with two cast rows for movie 1 and, when \<open>with_movie\<close> holds, the movie itself.
\<close>

definition sample_store :: "bool \<Rightarrow> store" where
  "sample_store with_movie =
     \<lparr>query = (\<lambda>collection key cond.
         if collection = ''MovieCast'' \<and> key = 1 then Inr [sample_cast_row, other_cast_row]
         else Inr []),
      getItem = (\<lambda>collection key.
         if collection = ''Movies'' \<and> key = 1 \<and> with_movie then Inr (Some sample_movie)
         else Inr None)\<rparr>"

definition sample_params :: "string option \<Rightarrow> bool \<Rightarrow> CastLookupParams" where
  "sample_params raw flag =
     \<lparr>movieId = raw, actorName = None, roleName = None, includeMovieMetadata = flag\<rparr>"


section \<open>Properties of \<open>JSON.stringify\<close>\<close>

lemma QuoteJSONString_data: \<open>QuoteJSONString ''data'' = ''"data"''\<close>
  by (simp add: QuoteJSONString_def quote_code_unit_def)

lemma QuoteJSONString_error: \<open>QuoteJSONString ''error'' = ''"error"''\<close>
  by (simp add: QuoteJSONString_def quote_code_unit_def)

lemma element_text_fold:
  "(\<lambda>v. case JSON_stringify v of None \<Rightarrow> ''null'' | Some s \<Rightarrow> s) = element_text"
  by (simp add: element_text_def fun_eq_iff)

lemma JSON_stringify_array:
  "JSON_stringify (JArray vs) = Some (''['' @ join_comma (map element_text vs) @ '']'')"
  by (simp add: element_text_fold)

lemma JSON_stringify_data:
  \<open>JSON_stringify (JObject [(''data'', JArray rows)]) =
     Some (''{"data":['' @ join_comma (map element_text rows) @ '']}'')\<close>
  by (simp add: QuoteJSONString_data element_text_fold)

lemma JSON_stringify_data_undefined:
  "JSON_stringify (JObject [(''data'', JUndefined)]) = Some ''{}''"
  by simp


lemma JSON_stringify_object_defined: "\<exists>s. JSON_stringify (JObject ps) = Some s"
  by simp


section \<open>Properties of \<open>JSON.stringify\<close> on any value\<close>

lemma any_stringify_Data: "any_stringify (Data v) = Inr (JSON_stringify v)"
  by (simp add: any_stringify_def)

lemma plain_property:
  "plain (AnyObject [(k, x)]) = map_option (\<lambda>d. JObject [(k, d)]) (plain x)"
  by (cases "plain x") simp_all

lemma any_stringify_property:
  "any_stringify (AnyObject [(k, x)]) =
     (case plain x of None \<Rightarrow> Inl TypeError | Some d \<Rightarrow> Inr (JSON_stringify (JObject [(k, d)])))"
  by (simp add: any_stringify_def plain_property split: option.split)

lemma any_stringify_TypeError: "any_stringify TypeError = Inr (Some ''{}'')"
  by (simp add: any_stringify_def)

lemma any_stringify_error_TypeError:
  \<open>any_stringify (AnyObject [(''error'', TypeError)]) = Inr (Some ''{"error":{}}'')\<close>
  by (simp add: any_stringify_property QuoteJSONString_error)

lemma plain_Items_value_rows:
  "Items out = Some rows \<Longrightarrow> plain (Items_value out) = map_option JArray (those (map plain rows))"
  by (simp add: Items_value_def)


section \<open>The paths of the Movie Lookup handler\<close>

text \<open>The scan resolves and its data is rendered: the \<open>try\<close> block returns.\<close>

lemma handler_returns_data:
  assumes "dynamodb rt ddbDocClient (ScanCommand ''Movies'') = Inr out"
      and "plain (Items_value out) = Some d"
  shows "handler rt (Data event) context =
           (Inr \<lparr>statusCode = 200,
                 headers = [(''content-type'', ''application/json'')],
                 body = JSON_stringify (JObject [(''data'', d)])\<rparr>,
            \<lparr>sent = [ScanCommand ''Movies''],
             console = [ConsoleLog ''Event: '' (Text (JSON_stringify event)),
                        ConsoleLog ''ScanCommand response: '' (Output out)]\<rparr>)"
  using assms
  by (simp add: handler_def try_block_def send_def console_log_def any_stringify_Data
        any_stringify_property)

text \<open>The scan resolves and its data is not rendered: line 27 throws, the \<open>catch\<close> block
  returns status 500.\<close>

lemma handler_data_not_rendered:
  assumes "dynamodb rt ddbDocClient (ScanCommand ''Movies'') = Inr out"
      and "plain (Items_value out) = None"
  shows \<open>handler rt (Data event) context =
           (Inr \<lparr>statusCode = 500,
                 headers = [(''content-type'', ''application/json'')],
                 body = Some ''{"error":{}}''\<rparr>,
            \<lparr>sent = [ScanCommand ''Movies''],
             console = [ConsoleLog ''Event: '' (Text (JSON_stringify event)),
                        ConsoleLog ''ScanCommand response: '' (Output out),
                        ConsoleError (Some ''{}'')]\<rparr>)\<close>
  using assms
  by (simp add: handler_def try_block_def catch_block_def send_def console_log_def
        console_error_def any_stringify_Data any_stringify_property any_stringify_TypeError
        QuoteJSONString_error)

text \<open>The scan rejects with an error that is rendered: the \<open>catch\<close> block returns status
  500.\<close>

lemma handler_returns_error:
  assumes "dynamodb rt ddbDocClient (ScanCommand ''Movies'') = Inl e"
      and "plain e = Some d"
  shows "handler rt (Data event) context =
           (Inr \<lparr>statusCode = 500,
                 headers = [(''content-type'', ''application/json'')],
                 body = JSON_stringify (JObject [(''error'', d)])\<rparr>,
            \<lparr>sent = [ScanCommand ''Movies''],
             console = [ConsoleLog ''Event: '' (Text (JSON_stringify event)),
                        ConsoleError (JSON_stringify d)]\<rparr>)"
  using assms
  by (simp add: handler_def try_block_def catch_block_def send_def console_log_def
        console_error_def any_stringify_Data any_stringify_property any_stringify_def [of e])

text \<open>The scan rejects with an error that is not rendered: line 30 throws inside the
  \<open>catch\<close> block, and the handler rejects.\<close>

lemma handler_rejects:
  assumes "dynamodb rt ddbDocClient (ScanCommand ''Movies'') = Inl e"
      and "plain e = None"
  shows "handler rt (Data event) context =
           (Inl TypeError,
            \<lparr>sent = [ScanCommand ''Movies''],
             console = [ConsoleLog ''Event: '' (Text (JSON_stringify event))]\<rparr>)"
  using assms
  by (simp add: handler_def try_block_def catch_block_def send_def console_log_def
        any_stringify_Data any_stringify_def [of e])

text \<open>An event that is not rendered: line 11 throws before the scan is sent.\<close>

lemma handler_event_not_rendered:
  assumes "plain event = None"
  shows \<open>handler rt event context =
           (Inr \<lparr>statusCode = 500,
                 headers = [(''content-type'', ''application/json'')],
                 body = Some ''{"error":{}}''\<rparr>,
            \<lparr>sent = [], console = [ConsoleError (Some ''{}'')]\<rparr>)\<close>
  using assms
  by (simp add: handler_def try_block_def catch_block_def console_error_def
        any_stringify_TypeError any_stringify_error_TypeError any_stringify_def [of event])

text \<open>The environment variables of the process are not read.\<close>

lemma send_process_env: "send (rt\<lparr>process_env := env\<rparr>) = send rt"
  by (simp add: send_def fun_eq_iff)

lemma try_block_process_env: "try_block (rt\<lparr>process_env := env\<rparr>) = try_block rt"
  by (simp only: try_block_def send_process_env fun_eq_iff simp_thms)

lemma handler_process_env:
  "handler (rt\<lparr>process_env := env\<rparr>) event context = handler rt event context"
  by (simp only: handler_def try_block_process_env)

text \<open>On an event of plain data the scan is sent exactly once, on every path.\<close>

lemma handler_sent:
  "sent (snd (handler rt (Data event) context)) = [ScanCommand ''Movies'']"
proof (cases "dynamodb rt ddbDocClient (ScanCommand ''Movies'')")
  case (Inl e)
  then show ?thesis
    by (cases "plain e") (simp_all add: handler_rejects handler_returns_error)
next
  case (Inr out)
  then show ?thesis
    by (cases "plain (Items_value out)")
       (simp_all add: handler_data_not_rendered handler_returns_data)
qed

text \<open>What the handler returns, when it returns, has status 200 or 500 and the JSON
  content type.\<close>

lemma handler_response_shape:
  assumes "fst (handler rt (Data event) context) = Inr r"
  shows "(statusCode r = 200 \<or> statusCode r = 500)
       \<and> headers r = [(''content-type'', ''application/json'')]"
proof (cases "dynamodb rt ddbDocClient (ScanCommand ''Movies'')")
  case (Inl e)
  then show ?thesis using assms
    by (cases "plain e") (auto simp add: handler_rejects handler_returns_error)
next
  case (Inr out)
  then show ?thesis using assms
    by (cases "plain (Items_value out)")
       (auto simp add: handler_data_not_rendered handler_returns_data)
qed

text \<open>
  The type of a scan output allows the field \<open>Items\<close> to be absent. The handler then still
  returns status 200, and the property \<open>data\<close> is left out of the body.
\<close>

lemma handler_scan_without_Items:
  assumes "dynamodb rt ddbDocClient (ScanCommand ''Movies'') = Inr out"
      and "Items out = None"
  shows "fst (handler rt (Data event) context) =
           Inr \<lparr>statusCode = 200,
                headers = [(''content-type'', ''application/json'')],
                body = Some ''{}''\<rparr>"
proof -
  have "plain (Items_value out) = Some JUndefined"
    using assms(2) by (simp add: Items_value_def)
  from handler_returns_data [OF assms(1) this] show ?thesis
    by simp
qed

section \<open>The Movie Lookup handler: a scan that succeeds\<close>

text \<open>
  C1. When the scan of an invocation succeeds and \<open>JSON.stringify\<close> renders the records
  \<open>rows\<close> that it returned, the handler has sent exactly one command, a scan of \<open>Movies\<close>
  with no index, filter, limit or start key, and it returns status 200 with the body
  \<open>{"data":[...]}\<close> that lists every record of \<open>rows\<close>, in the order in which the store
  returned them.
\<close>

theorem handler_scan_success:
  assumes "dynamodb rt ddbDocClient (ScanCommand ''Movies'') = Inr out"
      and "Items out = Some rows"
      and "those (map plain rows) = Some records"
  shows \<open>sent (snd (handler rt (Data event) context)) = [ScanCommand ''Movies'']
       \<and> IndexName (ScanCommand ''Movies'') = None
       \<and> FilterExpression (ScanCommand ''Movies'') = None
       \<and> Limit (ScanCommand ''Movies'') = None
       \<and> ExclusiveStartKey (ScanCommand ''Movies'') = None
       \<and> fst (handler rt (Data event) context) =
           Inr \<lparr>statusCode = 200,
                headers = [(''content-type'', ''application/json'')],
                body = Some (''{"data":['' @ join_comma (map element_text records) @ '']}'')\<rparr>\<close>
proof -
  have pl: "plain (Items_value out) = Some (JArray records)"
    using assms(2,3) by (simp add: plain_Items_value_rows)
  have r: "fst (handler rt (Data event) context) =
             Inr \<lparr>statusCode = 200,
                  headers = [(''content-type'', ''application/json'')],
                  body = JSON_stringify (JObject [(''data'', JArray records)])\<rparr>"
    by (simp only: handler_returns_data [OF assms(1) pl] fst_conv)
  have f: "IndexName (ScanCommand ''Movies'') = None
         \<and> FilterExpression (ScanCommand ''Movies'') = None
         \<and> Limit (ScanCommand ''Movies'') = None
         \<and> ExclusiveStartKey (ScanCommand ''Movies'') = None"
    by (simp add: ScanCommand_def)
  show ?thesis using r [unfolded JSON_stringify_data] f handler_sent by blast
qed

theorem handler_scan_success_witness:
  \<open>dynamodb sample_runtime ddbDocClient (ScanCommand ''Movies'') = Inr \<lparr>Items = Some [Data sample_movie]\<rparr>
   \<and> those (map plain [Data sample_movie]) = Some [sample_movie]
   \<and> sent (snd (handler sample_runtime (Data sample_event) (Data JNull))) = [ScanCommand ''Movies'']
   \<and> fst (handler sample_runtime (Data sample_event) (Data JNull)) =
       Inr \<lparr>statusCode = 200,
            headers = [(''content-type'', ''application/json'')],
            body = Some ''{"data":[{"id":1,"title":"A"}]}''\<rparr>\<close>
proof -
  have sc: "dynamodb sample_runtime ddbDocClient (ScanCommand ''Movies'') = Inr \<lparr>Items = Some [Data sample_movie]\<rparr>"
    by (simp add: sample_runtime_def ScanCommand_def)
  have it: "Items \<lparr>Items = Some [Data sample_movie]\<rparr> = Some [Data sample_movie]"
    by simp
  have pl: "those (map plain [Data sample_movie]) = Some [sample_movie]"
    by simp
  have tx: \<open>''{"data":['' @ join_comma (map element_text [sample_movie]) @ '']}''
            = ''{"data":[{"id":1,"title":"A"}]}''\<close>
    by (simp add: element_text_def sample_movie_def QuoteJSONString_def quote_code_unit_def)
  note h = handler_scan_success [OF sc it pl, of sample_event "Data JNull"]
  have s1: "sent (snd (handler sample_runtime (Data sample_event) (Data JNull))) = [ScanCommand ''Movies'']"
    using h by blast
  have s2: \<open>fst (handler sample_runtime (Data sample_event) (Data JNull)) =
       Inr \<lparr>statusCode = 200,
            headers = [(''content-type'', ''application/json'')],
            body = Some (''{"data":['' @ join_comma (map element_text [sample_movie]) @ '']}'')\<rparr>\<close>
    using h by blast
  show ?thesis using sc pl s1 s2 [unfolded tx] by blast
qed

text \<open>
  Without the condition on the records the statement fails. The client does not wrap
  numbers, so the movie whose budget is 9007199254740993 comes back with a BigInt; the scan
  has succeeded, \<open>JSON.stringify\<close> throws on the data at line 27, and the \<open>catch\<close> block
  answers with status 500.
\<close>

theorem handler_scan_success_counterexample:
  \<open>dynamodb bigint_runtime ddbDocClient (ScanCommand ''Movies'') = Inr \<lparr>Items = Some [bigint_movie]\<rparr>
   \<and> fst (handler bigint_runtime (Data sample_event) (Data JNull)) =
       Inr \<lparr>statusCode = 500,
            headers = [(''content-type'', ''application/json'')],
            body = Some ''{"error":{}}''\<rparr>\<close>
proof -
  have sc: "dynamodb bigint_runtime ddbDocClient (ScanCommand ''Movies'') = Inr \<lparr>Items = Some [bigint_movie]\<rparr>"
    by (simp add: bigint_runtime_def ddbDocClient_def createDDbDocClient_def)
  have pl: "plain (Items_value \<lparr>Items = Some [bigint_movie]\<rparr>) = None"
    by (simp add: Items_value_def bigint_movie_def)
  from handler_data_not_rendered [OF sc pl, of sample_event "Data JNull"] sc show ?thesis
    by simp
qed


section \<open>The Movie Lookup handler: a store error\<close>





section \<open>The Movie Lookup handler: an empty collection\<close>

text \<open>
  C3. When the scan returns no records, the handler returns status 200 and the body is
  exactly \<open>{"data":[]}\<close>: an empty collection is not an error.
\<close>

theorem handler_empty_collection:
  assumes "dynamodb rt ddbDocClient (ScanCommand ''Movies'') = Inr out"
      and "Items out = Some []"
  shows \<open>fst (handler rt (Data event) context) =
           Inr \<lparr>statusCode = 200,
                headers = [(''content-type'', ''application/json'')],
                body = Some ''{"data":[]}''\<rparr>\<close>
proof -
  have pl: "plain (Items_value out) = Some (JArray [])"
    using assms(2) by (simp add: plain_Items_value_rows)
  have tx: \<open>JSON_stringify (JObject [(''data'', JArray [])]) = Some ''{"data":[]}''\<close>
    by (simp add: QuoteJSONString_data)
  show ?thesis
    by (simp only: handler_returns_data [OF assms(1) pl] fst_conv tx)
qed

theorem handler_empty_collection_witness:
  \<open>dynamodb empty_runtime ddbDocClient (ScanCommand ''Movies'') = Inr \<lparr>Items = Some []\<rparr>
   \<and> fst (handler empty_runtime (Data sample_event) (Data JNull)) =
       Inr \<lparr>statusCode = 200,
            headers = [(''content-type'', ''application/json'')],
            body = Some ''{"data":[]}''\<rparr>\<close>
proof -
  have sc: "dynamodb empty_runtime ddbDocClient (ScanCommand ''Movies'') = Inr \<lparr>Items = Some []\<rparr>"
    by (simp add: empty_runtime_def)
  have it: "Items \<lparr>Items = Some []\<rparr> = Some []"
    by simp
  from handler_empty_collection [OF sc it, of sample_event "Data JNull"] sc show ?thesis
    by blast
qed


section \<open>The Movie Lookup handler: independence of the request\<close>

text \<open>
  C8. The outcome of the handler and the commands it sends do not depend on the request:
  for any two events and contexts, against the same store, the handler sends the same scan
  and returns the same response. An event is the JSON that the runtime has parsed, that is
  plain data.
\<close>

theorem handler_ignores_request:
  "fst (handler rt (Data event) context) = fst (handler rt (Data event') context')
   \<and> sent (snd (handler rt (Data event) context)) = sent (snd (handler rt (Data event') context'))"
proof (cases "dynamodb rt ddbDocClient (ScanCommand ''Movies'')")
  case (Inl e)
  then show ?thesis
    by (cases "plain e") (simp_all add: handler_rejects handler_returns_error)
next
  case (Inr out)
  then show ?thesis
    by (cases "plain (Items_value out)")
       (simp_all add: handler_data_not_rendered handler_returns_data)
qed


section \<open>The Movie Lookup handler: totality at the boundary\<close>

text \<open>
  C9. The claim is that every invocation returns a response with status 200 or 500, and
  that no exception leaves the handler. The handler does not do so at a store error that
  \<open>JSON.stringify\<close> cannot render: the store rejects with an error object that holds a
  circular reference, the \<open>catch\<close> block receives it, \<open>JSON.stringify(error)\<close> throws at line
  30, and the invocation ends rejected with that \<open>TypeError\<close>, after one \<open>send\<close> and one
  console line, with no response.
\<close>

theorem handler_rejects_circular_error:
  "handler circular_runtime (Data JNull) (Data JNull) =
     (Inl TypeError,
      \<lparr>sent = [ScanCommand ''Movies''],
       console = [ConsoleLog ''Event: '' (Text (Some ''null''))]\<rparr>)"
proof -
  have sc: "dynamodb circular_runtime ddbDocClient (ScanCommand ''Movies'') = Inl circular_error"
    by (simp add: circular_runtime_def)
  have pl: "plain circular_error = None"
    by (simp add: circular_error_def)
  from handler_rejects [OF sc pl, of JNull "Data JNull"] show ?thesis
    by simp
qed


section \<open>The Movie Lookup handler: the table it scans\<close>

text \<open>
  C10. The handler scans the table named \<open>Movies\<close> whatever the environment variables of
  the process are, and its whole result is the same under any environment: it does not
  read the variable \<open>TABLE_NAME\<close> that the stack sets for it.
\<close>

theorem handler_table_fixed:
  "map TableName (sent (snd (handler (rt\<lparr>process_env := env\<rparr>) (Data event) context))) = [''Movies'']
   \<and> handler (rt\<lparr>process_env := env\<rparr>) (Data event) context = handler rt (Data event) context
   \<and> map_of getMovieByIdFn_environment ''TABLE_NAME'' = Some ''Movies''"
proof -
  have t: "map TableName [ScanCommand ''Movies''] = [''Movies'']"
    by (simp add: ScanCommand_def)
  have v: "map_of getMovieByIdFn_environment ''TABLE_NAME'' = Some ''Movies''"
    by (simp add: getMovieByIdFn_environment_def moviesTable_tableName_def)
  show ?thesis
    by (simp only: handler_process_env handler_sent t v simp_thms)
qed


section \<open>The Cast Lookup handler: reading the movie identifier\<close>

lemma parse_integer_abc: "parse_integer ''abc'' = None"
  by (simp add: parse_digits_def is_digit_def)

lemma parse_integer_1: "parse_integer ''1'' = Some 1"
  by (simp add: parse_digits_def is_digit_def digits_value_def)

lemma parse_integer_999: "parse_integer ''999'' = Some 999"
  by (simp add: parse_digits_def is_digit_def digits_value_def)


section \<open>The Cast Lookup handler: an invalid movie identifier\<close>

text \<open>
  C4. When the parameter \<open>movieId\<close> of a Cast Lookup invocation is missing or does not
  parse as an integer, the handler returns status 400 with the body that describes the
  invalid parameter, and it makes no store call.
\<close>

theorem castLookup_invalid_movieId:
  assumes "movieId params = None \<or> (\<exists>raw. movieId params = Some raw \<and> parse_integer raw = None)"
  shows "status (fst (castLookup pol st params)) = 400
       \<and> responseBody (fst (castLookup pol st params)) = Some (invalidParameterBody pol)
       \<and> snd (castLookup pol st params) = []"
proof -
  from assms have "requestedMovieId params = None"
    by (auto simp add: requestedMovieId_def)
  then show ?thesis
    by (simp add: castLookup_def)
qed

theorem castLookup_invalid_movieId_witness:
  \<open>(movieId (sample_params (Some ''abc'') True) = None
      \<or> (\<exists>raw. movieId (sample_params (Some ''abc'') True) = Some raw \<and> parse_integer raw = None))
   \<and> status (fst (castLookup sample_policy (sample_store True) (sample_params (Some ''abc'') True))) = 400
   \<and> responseBody (fst (castLookup sample_policy (sample_store True) (sample_params (Some ''abc'') True)))
       = Some ''{"error":"invalid movieId"}''
   \<and> snd (castLookup sample_policy (sample_store True) (sample_params (Some ''abc'') True)) = []\<close>
proof -
  have hyp: "movieId (sample_params (Some ''abc'') True) = None
      \<or> (\<exists>raw. movieId (sample_params (Some ''abc'') True) = Some raw \<and> parse_integer raw = None)"
    by (simp add: sample_params_def parse_integer_abc del: parse_integer.simps)
  have tx: \<open>invalidParameterBody sample_policy = ''{"error":"invalid movieId"}''\<close>
    by (simp add: sample_policy_def QuoteJSONString_def quote_code_unit_def)
  note h = castLookup_invalid_movieId [OF hyp, of sample_policy "sample_store True"]
  show ?thesis using hyp h [unfolded tx] by blast
qed


section \<open>The Cast Lookup handler: no cast rows\<close>

text \<open>
  C5. When \<open>movieId\<close> parses as an integer and the cast query matches no row, the handler
  returns status 200 (not 404, not 500) with the empty list as data, after the cast query
  alone.
\<close>

theorem castLookup_no_rows:
  assumes "movieId params = Some raw"
      and "parse_integer raw = Some mid"
      and "query st ''MovieCast'' mid (castCondition params) = Inr []"
  shows \<open>status (fst (castLookup pol st params)) = 200
       \<and> responseBody (fst (castLookup pol st params)) = Some ''{"data":[]}''
       \<and> snd (castLookup pol st params) = [Query ''MovieCast'' mid (castCondition params)]\<close>
  using assms
  by (simp add: castLookup_def requestedMovieId_def okResponse_def QuoteJSONString_data)

theorem castLookup_no_rows_witness:
  \<open>movieId (sample_params (Some ''999'') True) = Some ''999''
   \<and> parse_integer ''999'' = Some 999
   \<and> query (sample_store False) ''MovieCast'' 999 (castCondition (sample_params (Some ''999'') True)) = Inr []
   \<and> status (fst (castLookup sample_policy (sample_store False) (sample_params (Some ''999'') True))) = 200
   \<and> responseBody (fst (castLookup sample_policy (sample_store False) (sample_params (Some ''999'') True)))
       = Some ''{"data":[]}''\<close>
proof -
  have h1: "movieId (sample_params (Some ''999'') True) = Some ''999''"
    by (simp add: sample_params_def)
  have h3: "query (sample_store False) ''MovieCast'' 999 (castCondition (sample_params (Some ''999'') True)) = Inr []"
    by (simp add: sample_store_def)
  from castLookup_no_rows [OF h1 parse_integer_999 h3, of sample_policy] h1 parse_integer_999 h3
  show ?thesis by blast
qed


section \<open>The Cast Lookup handler: cast rows without their movie\<close>

text \<open>
  C6. With the enrichment flag set and a valid \<open>movieId\<close>, when the cast query returns
  \<open>rows\<close> and the store holds no movie of that identifier, the handler returns status 200
  and the rows as they are: the missing movie is not an error.
\<close>

theorem castLookup_missing_movie:
  assumes "movieId params = Some raw"
      and "parse_integer raw = Some mid"
      and "includeMovieMetadata params"
      and "query st ''MovieCast'' mid (castCondition params) = Inr rows"
      and "getItem st ''Movies'' mid = Inr None"
  shows \<open>status (fst (castLookup pol st params)) = 200
       \<and> responseBody (fst (castLookup pol st params)) = JSON_stringify (JObject [(''data'', JArray rows)])
       \<and> responseBody (fst (castLookup pol st params)) =
           Some (''{"data":['' @ join_comma (map element_text rows) @ '']}'')\<close>
  using assms
  by (cases "rows = []")
     (simp_all add: castLookup_def requestedMovieId_def okResponse_def QuoteJSONString_data
        element_text_fold)

theorem castLookup_missing_movie_witness:
  \<open>movieId (sample_params (Some ''1'') True) = Some ''1''
   \<and> parse_integer ''1'' = Some 1
   \<and> includeMovieMetadata (sample_params (Some ''1'') True)
   \<and> query (sample_store False) ''MovieCast'' 1 (castCondition (sample_params (Some ''1'') True))
       = Inr [sample_cast_row, other_cast_row]
   \<and> getItem (sample_store False) ''Movies'' 1 = Inr None
   \<and> status (fst (castLookup sample_policy (sample_store False) (sample_params (Some ''1'') True))) = 200
   \<and> responseBody (fst (castLookup sample_policy (sample_store False) (sample_params (Some ''1'') True)))
       = Some ''{"data":[{"movieId":1,"actorName":"X","roleName":"Hero"},{"movieId":1,"actorName":"Y","roleName":"Friend"}]}''\<close>
proof -
  have h1: "movieId (sample_params (Some ''1'') True) = Some ''1''"
    by (simp add: sample_params_def)
  have h3: "includeMovieMetadata (sample_params (Some ''1'') True)"
    by (simp add: sample_params_def)
  have h4: "query (sample_store False) ''MovieCast'' 1 (castCondition (sample_params (Some ''1'') True))
       = Inr [sample_cast_row, other_cast_row]"
    by (simp add: sample_store_def)
  have h5: "getItem (sample_store False) ''Movies'' 1 = Inr None"
    by (simp add: sample_store_def)
  have tx: \<open>''{"data":['' @ join_comma (map element_text [sample_cast_row, other_cast_row]) @ '']}''
     = ''{"data":[{"movieId":1,"actorName":"X","roleName":"Hero"},{"movieId":1,"actorName":"Y","roleName":"Friend"}]}''\<close>
    by (simp add: element_text_def sample_cast_row_def other_cast_row_def QuoteJSONString_def
         quote_code_unit_def)
  note h = castLookup_missing_movie [OF h1 parse_integer_1 h3 h4 h5, of sample_policy]
  have s1: "status (fst (castLookup sample_policy (sample_store False) (sample_params (Some ''1'') True))) = 200"
    using h by blast
  have s2: \<open>responseBody (fst (castLookup sample_policy (sample_store False) (sample_params (Some ''1'') True)))
     = Some (''{"data":['' @ join_comma (map element_text [sample_cast_row, other_cast_row]) @ '']}'')\<close>
    using h by blast
  show ?thesis using h1 parse_integer_1 h3 h4 h5 s1 s2 [unfolded tx] by blast
qed


section \<open>The Cast Lookup handler: enrichment of every row\<close>

text \<open>
  C7. With the enrichment flag set, when the cast query returns \<open>rows\<close> and the movie
  exists, the handler returns status 200 and the data is the list of the rows, each one
  merged with the movie by the same merge policy. A call against any store that gives the
  same rows and the same movie returns the same response.
\<close>

theorem castLookup_enriched:
  assumes "movieId params = Some raw"
      and "parse_integer raw = Some mid"
      and "includeMovieMetadata params"
      and "query st ''MovieCast'' mid (castCondition params) = Inr rows"
      and "getItem st ''Movies'' mid = Inr (Some movie)"
      and "query st' ''MovieCast'' mid (castCondition params) = Inr rows"
      and "getItem st' ''Movies'' mid = Inr (Some movie)"
  shows "status (fst (castLookup pol st params)) = 200
       \<and> fst (castLookup pol st params) = okResponse (map (mergeMovie pol movie) rows)
       \<and> responseBody (fst (castLookup pol st params)) =
           JSON_stringify (JObject [(''data'', JArray (map (mergeMovie pol movie) rows))])
       \<and> fst (castLookup pol st' params) = fst (castLookup pol st params)"
  using assms
  by (cases "rows = []")
     (simp_all add: castLookup_def requestedMovieId_def okResponse_def)

theorem castLookup_enriched_witness:
  \<open>movieId (sample_params (Some ''1'') True) = Some ''1''
   \<and> parse_integer ''1'' = Some 1
   \<and> includeMovieMetadata (sample_params (Some ''1'') True)
   \<and> query (sample_store True) ''MovieCast'' 1 (castCondition (sample_params (Some ''1'') True))
       = Inr [sample_cast_row, other_cast_row]
   \<and> getItem (sample_store True) ''Movies'' 1 = Inr (Some sample_movie)
   \<and> status (fst (castLookup sample_policy (sample_store True) (sample_params (Some ''1'') True))) = 200
   \<and> responseBody (fst (castLookup sample_policy (sample_store True) (sample_params (Some ''1'') True)))
       = Some ''{"data":[{"movieId":1,"actorName":"X","roleName":"Hero","movie":{"id":1,"title":"A"}},{"movieId":1,"actorName":"Y","roleName":"Friend","movie":{"id":1,"title":"A"}}]}''\<close>
proof -
  have h1: "movieId (sample_params (Some ''1'') True) = Some ''1''"
    by (simp add: sample_params_def)
  have h3: "includeMovieMetadata (sample_params (Some ''1'') True)"
    by (simp add: sample_params_def)
  have h4: "query (sample_store True) ''MovieCast'' 1 (castCondition (sample_params (Some ''1'') True))
       = Inr [sample_cast_row, other_cast_row]"
    by (simp add: sample_store_def)
  have h5: "getItem (sample_store True) ''Movies'' 1 = Inr (Some sample_movie)"
    by (simp add: sample_store_def)
  have tx: \<open>JSON_stringify (JObject [(''data'', JArray (map (mergeMovie sample_policy sample_movie)
                [sample_cast_row, other_cast_row]))])
     = Some ''{"data":[{"movieId":1,"actorName":"X","roleName":"Hero","movie":{"id":1,"title":"A"}},{"movieId":1,"actorName":"Y","roleName":"Friend","movie":{"id":1,"title":"A"}}]}''\<close>
    by (simp add: sample_policy_def nest_movie_def sample_movie_def sample_cast_row_def
         other_cast_row_def QuoteJSONString_def quote_code_unit_def)
  note h = castLookup_enriched [OF h1 parse_integer_1 h3 h4 h5 h4 h5, of sample_policy]
  have s1: "status (fst (castLookup sample_policy (sample_store True) (sample_params (Some ''1'') True))) = 200"
    using h by blast
  have s2: "responseBody (fst (castLookup sample_policy (sample_store True) (sample_params (Some ''1'') True)))
     = JSON_stringify (JObject [(''data'', JArray (map (mergeMovie sample_policy sample_movie)
                [sample_cast_row, other_cast_row]))])"
    using h by blast
  show ?thesis using h1 parse_integer_1 h3 h4 h5 s1 s2 [unfolded tx] by blast
qed

end
